theory Spec2Isabelle
  imports Main
begin

section \<open>The stack walkers of the profiling collector\<close>

text \<open>
  A shallow embedding of \<^verbatim>\<open>ddtrace/profiling/collector/_traceback.pyx\<close>: the functions
  \<open>traceback_to_frames\<close> and \<open>pyframe_to_frames\<close>.
\<close>

subsection \<open>Data model\<close>

text \<open>
  The walkers read four attributes of the host runtime's objects: a code object's
  \<open>co_filename\<close> and \<open>co_name\<close>, a frame's \<open>f_code\<close>, \<open>f_lineno\<close> (which may be
  \<open>None\<close>) and \<open>f_back\<close> (the caller, or \<open>None\<close>), and a traceback's \<open>tb_frame\<close> and
  \<open>tb_next\<close> (or \<open>None\<close>). Python's \<open>None\<close> is \<open>None\<close> of the option type; Python's
  unbounded integers are \<open>int\<close>. Values of a datatype are finite, so the chains are
  finite and acyclic, as the runtime's are.
\<close>

record code_object =
  co_filename :: string
  co_name :: string

datatype frame =
  Frame (f_code: code_object) (f_lineno: "int option") (f_back: "frame option")

datatype traceback =
  Traceback (tb_frame: frame) (tb_next: "traceback option")

type_synonym descriptor = "string \<times> int \<times> string"

subsection \<open>The two walkers\<close>

text \<open>
  The \<open>while tb is not None\<close> loop of \<open>traceback_to_frames\<close>, with the loop variables
  \<open>tb\<close>, \<open>frames\<close> and \<open>nframes\<close> as arguments. \<open>frames.insert(0, x)\<close> is \<open>x # frames\<close>.
\<close>

function traceback_loop ::
  "int \<Rightarrow> traceback option \<Rightarrow> descriptor list \<Rightarrow> int \<Rightarrow> descriptor list \<times> int" where
  "traceback_loop max_nframes None frames nframes = (frames, nframes)"
| "traceback_loop max_nframes (Some tb) frames nframes =
     (let frames' =
        (if nframes < max_nframes then
           (let frame = tb_frame tb;
                code = f_code frame;
                lineno = (case f_lineno frame of None \<Rightarrow> 0 | Some l \<Rightarrow> l)
            in (co_filename code, lineno, co_name code) # frames)
         else frames)
      in traceback_loop max_nframes (tb_next tb) frames' (nframes + 1))"
  by pat_completeness auto
termination
proof (relation "measure (\<lambda>(m, tb, fs, n). size_option size tb)")
  show "wf (measure (\<lambda>(m, tb, fs, n). size_option size tb))" by simp
next
  fix max_nframes :: int and tb :: traceback and frames :: "descriptor list"
    and nframes :: int and x :: "descriptor list"
  show "((max_nframes, tb_next tb, x, nframes + 1), (max_nframes, Some tb, frames, nframes))
          \<in> measure (\<lambda>(m, tb, fs, n). size_option size tb)"
    by (cases tb) simp
qed

definition traceback_to_frames :: "traceback option \<Rightarrow> int \<Rightarrow> descriptor list \<times> int" where
  "traceback_to_frames traceback max_nframes = traceback_loop max_nframes traceback [] 0"

text \<open>
  The \<open>while frame is not None\<close> loop of \<open>pyframe_to_frames\<close>: the counter is
  incremented first, the guard reads \<open>len(frames)\<close>, and \<open>frames.append(x)\<close> is
  \<open>frames @ [x]\<close>.
\<close>

function pyframe_loop ::
  "int \<Rightarrow> frame option \<Rightarrow> descriptor list \<Rightarrow> int \<Rightarrow> descriptor list \<times> int" where
  "pyframe_loop max_nframes None frames nframes = (frames, nframes)"
| "pyframe_loop max_nframes (Some frame) frames nframes =
     (let nframes' = nframes + 1;
          frames' =
            (if int (length frames) < max_nframes then
               (let code = f_code frame;
                    lineno = (case f_lineno frame of None \<Rightarrow> 0 | Some l \<Rightarrow> l)
                in frames @ [(co_filename code, lineno, co_name code)])
             else frames)
      in pyframe_loop max_nframes (f_back frame) frames' nframes')"
  by pat_completeness auto
termination
proof (relation "measure (\<lambda>(m, fr, fs, n). size_option size fr)")
  show "wf (measure (\<lambda>(m, fr, fs, n). size_option size fr))" by simp
next
  fix max_nframes :: int and frame :: frame and frames :: "descriptor list"
    and nframes :: int and x :: int and xa :: "descriptor list"
  show "((max_nframes, f_back frame, xa, x), (max_nframes, Some frame, frames, nframes))
          \<in> measure (\<lambda>(m, fr, fs, n). size_option size fr)"
    by (cases frame) simp
qed

definition pyframe_to_frames :: "frame option \<Rightarrow> int \<Rightarrow> descriptor list \<times> int" where
  "pyframe_to_frames frame max_nframes = pyframe_loop max_nframes frame [] 0"

subsection \<open>The chains as sequences, and the descriptor of a node\<close>

text \<open>
  The nodes of a chain in the order the loops visit them: the head first, then along
  \<open>tb_next\<close> (respectively \<open>f_back\<close>) until \<open>None\<close>.
\<close>

function tb_chain :: "traceback option \<Rightarrow> traceback list" where
  "tb_chain None = []"
| "tb_chain (Some tb) = tb # tb_chain (tb_next tb)"
  by pat_completeness auto
termination
proof (relation "measure (size_option size)")
  show "wf (measure (size_option (size :: traceback \<Rightarrow> nat)))" by simp
next
  fix tb :: traceback
  show "(tb_next tb, Some tb) \<in> measure (size_option size)"
    by (cases tb) simp
qed

function frame_chain :: "frame option \<Rightarrow> frame list" where
  "frame_chain None = []"
| "frame_chain (Some frame) = frame # frame_chain (f_back frame)"
  by pat_completeness auto
termination
proof (relation "measure (size_option size)")
  show "wf (measure (size_option (size :: frame \<Rightarrow> nat)))" by simp
next
  fix frame :: frame
  show "(f_back frame, Some frame) \<in> measure (size_option size)"
    by (cases frame) simp
qed

text \<open>The \<open>i\<close>-th caller outward of a frame: \<open>f_back\<close> followed \<open>i\<close> times.\<close>

fun nth_caller :: "nat \<Rightarrow> frame option \<Rightarrow> frame option" where
  "nth_caller 0 fr = fr"
| "nth_caller (Suc i) None = None"
| "nth_caller (Suc i) (Some frame) = nth_caller i (f_back frame)"

text \<open>
  Frame descriptor extraction: the three lines that both loops contain, as one function
  of the frame.
\<close>

definition frame_descriptor :: "frame \<Rightarrow> descriptor" where
  "frame_descriptor frame =
     (let code = f_code frame;
          lineno = (case f_lineno frame of None \<Rightarrow> 0 | Some l \<Rightarrow> l)
      in (co_filename code, lineno, co_name code))"

definition tb_descriptors :: "traceback option \<Rightarrow> descriptor list" where
  "tb_descriptors tb = map (\<lambda>t. frame_descriptor (tb_frame t)) (tb_chain tb)"

definition frame_descriptors :: "frame option \<Rightarrow> descriptor list" where
  "frame_descriptors fr = map frame_descriptor (frame_chain fr)"

subsection \<open>Example chains\<close>

text \<open>
  The frame chain \<open>A \<rightarrow> B\<close> with \<open>A\<close> innermost, and traceback chains over frames with
  pairwise distinct descriptors. \<open>frame_native\<close> is a frame whose \<open>f_lineno\<close> is \<open>None\<close>.
\<close>

definition frame_B :: frame where
  "frame_B = Frame \<lparr>co_filename = ''a.py'', co_name = ''bar''\<rparr> (Some 2) None"

definition frame_A :: frame where
  "frame_A = Frame \<lparr>co_filename = ''a.py'', co_name = ''foo''\<rparr> (Some 10) (Some frame_B)"

definition frame_native :: frame where
  "frame_native = Frame \<lparr>co_filename = ''<frozen>'', co_name = ''native''\<rparr> None (Some frame_B)"

definition frame_X :: frame where
  "frame_X = Frame \<lparr>co_filename = ''x.py'', co_name = ''fx''\<rparr> (Some 1) None"

definition frame_Y :: frame where
  "frame_Y = Frame \<lparr>co_filename = ''y.py'', co_name = ''fy''\<rparr> (Some 2) None"

definition frame_Z :: frame where
  "frame_Z = Frame \<lparr>co_filename = ''z.py'', co_name = ''fz''\<rparr> (Some 3) None"

definition chain_XY :: "traceback option" where
  "chain_XY = Some (Traceback frame_X (Some (Traceback frame_Y None)))"

definition chain_XYZ :: "traceback option" where
  "chain_XYZ =
     Some (Traceback frame_X (Some (Traceback frame_Y (Some (Traceback frame_Z None)))))"

definition chain_native :: "traceback option" where
  "chain_native = Some (Traceback frame_native (Some (Traceback frame_X None)))"

definition chain_AB :: "traceback option" where
  "chain_AB = Some (Traceback frame_A (Some (Traceback frame_B None)))"

definition numbered_frame :: "int \<Rightarrow> frame" where
  "numbered_frame k = Frame \<lparr>co_filename = ''m.py'', co_name = ''f''\<rparr> (Some k) None"

definition chain_five :: "traceback option" where
  "chain_five =
     Some (Traceback (numbered_frame 1)
       (Some (Traceback (numbered_frame 2)
         (Some (Traceback (numbered_frame 3)
           (Some (Traceback (numbered_frame 4)
             (Some (Traceback (numbered_frame 5) None)))))))))"

section \<open>What the loops compute\<close>

lemma traceback_loop_eq:
  "traceback_loop m tb fs n =
     (rev (take (nat (m - n)) (tb_descriptors tb)) @ fs, n + int (length (tb_chain tb)))"
proof (induction m tb fs n rule: traceback_loop.induct)
  case (1 max_nframes frames nframes)
  show ?case by (simp add: tb_descriptors_def)
next
  case (2 max_nframes tb frames nframes)
  show ?case
  proof (cases "nframes < max_nframes")
    case True
    then have "nat (max_nframes - nframes) = Suc (nat (max_nframes - (nframes + 1)))"
      by simp
    with True 2 show ?thesis
      by (simp add: tb_descriptors_def frame_descriptor_def Let_def)
  next
    case False
    then have "nat (max_nframes - nframes) = 0" "nat (max_nframes - (nframes + 1)) = 0"
      by simp_all
    with False 2 show ?thesis
      by (simp add: tb_descriptors_def Let_def)
  qed
qed

lemma pyframe_loop_eq:
  "pyframe_loop m fr fs n =
     (fs @ take (nat (m - int (length fs))) (frame_descriptors fr),
      n + int (length (frame_chain fr)))"
proof (induction m fr fs n rule: pyframe_loop.induct)
  case (1 max_nframes frames nframes)
  show ?case by (simp add: frame_descriptors_def)
next
  case (2 max_nframes frame frames nframes)
  show ?case
  proof (cases "int (length frames) < max_nframes")
    case True
    then have "nat (max_nframes - int (length frames))
                 = Suc (nat (max_nframes - (1 + int (length frames))))"
      by simp
    with True 2 show ?thesis
      by (simp add: frame_descriptors_def frame_descriptor_def Let_def)
  next
    case False
    then have "nat (max_nframes - int (length frames)) = 0"
      by simp
    with False 2 show ?thesis
      by (simp add: frame_descriptors_def Let_def)
  qed
qed

lemma traceback_to_frames_eq:
  "traceback_to_frames tb m =
     (rev (take (nat m) (tb_descriptors tb)), int (length (tb_chain tb)))"
  by (simp add: traceback_to_frames_def traceback_loop_eq)

lemma pyframe_to_frames_eq:
  "pyframe_to_frames fr m =
     (take (nat m) (frame_descriptors fr), int (length (frame_chain fr)))"
  by (simp add: pyframe_to_frames_def pyframe_loop_eq)

lemma length_tb_descriptors: "length (tb_descriptors tb) = length (tb_chain tb)"
  by (simp add: tb_descriptors_def)

lemma length_frame_descriptors: "length (frame_descriptors fr) = length (frame_chain fr)"
  by (simp add: frame_descriptors_def)

lemma nth_caller_chain:
  "i < length (frame_chain fr) \<Longrightarrow> nth_caller i fr = Some (frame_chain fr ! i)"
proof (induction i fr rule: nth_caller.induct)
  case (1 fr)
  then show ?case by (cases fr) simp_all
next
  case (2 i)
  then show ?case by simp
next
  case (3 i frame)
  then show ?case by simp
qed

lemma nth_caller_beyond:
  "length (frame_chain fr) \<le> i \<Longrightarrow> nth_caller i fr = None"
proof (induction i fr rule: nth_caller.induct)
  case (1 fr)
  then show ?case by (cases fr) simp_all
next
  case (2 i)
  then show ?case by simp
next
  case (3 i frame)
  then show ?case by simp
qed

subsection \<open>The example chains, evaluated\<close>

lemma example_descriptors:
  "frame_descriptor frame_X = (''x.py'', 1, ''fx'')"
  "frame_descriptor frame_Y = (''y.py'', 2, ''fy'')"
  "frame_descriptor frame_Z = (''z.py'', 3, ''fz'')"
  "frame_descriptor frame_A = (''a.py'', 10, ''foo'')"
  "frame_descriptor frame_B = (''a.py'', 2, ''bar'')"
  "frame_descriptor frame_native = (''<frozen>'', 0, ''native'')"
  by (simp_all add: frame_descriptor_def frame_X_def frame_Y_def frame_Z_def frame_A_def
      frame_B_def frame_native_def)

lemma chain_five_descriptors:
  "tb_descriptors chain_five
     = [(''m.py'', 1, ''f''), (''m.py'', 2, ''f''), (''m.py'', 3, ''f''),
        (''m.py'', 4, ''f''), (''m.py'', 5, ''f'')]"
  by (simp add: tb_descriptors_def chain_five_def numbered_frame_def frame_descriptor_def)

lemma chain_five_length: "length (tb_chain chain_five) = 5"
  by (simp add: chain_five_def)

lemma chain_five_walk:
  "traceback_to_frames chain_five 3
     = ([(''m.py'', 3, ''f''), (''m.py'', 2, ''f''), (''m.py'', 1, ''f'')], 5)"
  by (simp add: traceback_to_frames_def chain_five_def numbered_frame_def)

lemma chain_XYZ_walk:
  "traceback_to_frames chain_XYZ 2 = ([(''y.py'', 2, ''fy''), (''x.py'', 1, ''fx'')], 3)"
  by (simp add: traceback_to_frames_def chain_XYZ_def frame_X_def frame_Y_def frame_Z_def)

lemma chain_XY_walk:
  "traceback_to_frames chain_XY 1 = ([(''x.py'', 1, ''fx'')], 2)"
  by (simp add: traceback_to_frames_def chain_XY_def frame_X_def frame_Y_def)

lemma int_min_nat: "0 \<le> m \<Longrightarrow> int (min k (nat m)) = min (int k) m"
  by arith

lemma frame_A_walk:
  "pyframe_to_frames (Some frame_A) 1 = ([(''a.py'', 10, ''foo'')], 2)"
  by (simp add: pyframe_to_frames_def frame_A_def frame_B_def)

lemma frame_A_walk_two:
  "pyframe_to_frames (Some frame_A) 2 = ([(''a.py'', 10, ''foo''), (''a.py'', 2, ''bar'')], 2)"
  by (simp add: pyframe_to_frames_def frame_A_def frame_B_def)

lemma frame_descriptors_nth_caller:
  assumes "i < length (frame_chain fr)"
  shows "map_option frame_descriptor (nth_caller i fr) = Some (frame_descriptors fr ! i)"
  using assms by (simp add: nth_caller_chain frame_descriptors_def)

lemma chain_native_walk:
  "traceback_to_frames chain_native 2 = ([(''x.py'', 1, ''fx''), (''<frozen>'', 0, ''native'')], 2)"
  by (simp add: traceback_to_frames_def chain_native_def frame_native_def frame_X_def)

lemma frame_native_walk:
  "pyframe_to_frames (Some frame_native) 2
     = ([(''<frozen>'', 0, ''native''), (''a.py'', 2, ''bar'')], 2)"
  by (simp add: pyframe_to_frames_def frame_native_def frame_B_def)

lemma frame_descriptor_fields:
  "frame_descriptor f = (path, line, name) \<longleftrightarrow>
     path = co_filename (f_code f) \<and> name = co_name (f_code f)
     \<and> line = (case f_lineno f of None \<Rightarrow> 0 | Some l \<Rightarrow> l)"
  by (auto simp add: frame_descriptor_def Let_def)

lemma frame_descriptor_metadata:
  "frame_descriptor f
     = (\<lambda>(c, l). (co_filename c, (case l of None \<Rightarrow> 0 | Some v \<Rightarrow> v), co_name c))
         (f_code f, f_lineno f)"
  by (simp add: frame_descriptor_def Let_def)

lemma same_metadata_same_descriptors:
  assumes "map (\<lambda>t. (f_code (tb_frame t), f_lineno (tb_frame t))) (tb_chain tb)
             = map (\<lambda>f. (f_code f, f_lineno f)) (frame_chain fr)"
  shows "tb_descriptors tb = frame_descriptors fr"
proof -
  let ?g = "\<lambda>(c, l). (co_filename c, (case l of None \<Rightarrow> (0::int) | Some v \<Rightarrow> v), co_name c)"
  have "tb_descriptors tb
          = map ?g (map (\<lambda>t. (f_code (tb_frame t), f_lineno (tb_frame t))) (tb_chain tb))"
    by (simp add: tb_descriptors_def frame_descriptor_metadata)
  also have "\<dots> = map ?g (map (\<lambda>f. (f_code f, f_lineno f)) (frame_chain fr))"
    by (simp only: assms)
  also have "\<dots> = frame_descriptors fr"
    by (simp add: frame_descriptors_def frame_descriptor_metadata)
  finally show ?thesis .
qed

section \<open>The claims\<close>

subsection \<open>C1: which nodes the traceback walker keeps\<close>

text \<open>
  The guard of \<open>traceback_to_frames\<close> is \<open>nframes < max_nframes\<close>, so it is the first
  \<open>max_nframes\<close> nodes of the walk that are inserted. On the five-node chain with
  \<open>max_nframes = 3\<close> the result holds the descriptors of the 3rd, 2nd and 1st visited
  nodes, not those of the 3rd, 4th and 5th: the first node's descriptor is kept and the
  fifth node's is not.
\<close>

theorem traceback_tail_biased_counterexample:
  "3 < int (length (tb_chain chain_five))
   \<and> traceback_to_frames chain_five 3
       = ([(''m.py'', 3, ''f''), (''m.py'', 2, ''f''), (''m.py'', 1, ''f'')], 5)
   \<and> fst (traceback_to_frames chain_five 3) \<noteq> drop (5 - 3) (tb_descriptors chain_five)
   \<and> frame_descriptor (numbered_frame 1) \<in> set (fst (traceback_to_frames chain_five 3))
   \<and> frame_descriptor (numbered_frame 5) \<notin> set (fst (traceback_to_frames chain_five 3))"
  by (simp add: chain_five_walk chain_five_descriptors chain_five_length
      frame_descriptor_def numbered_frame_def)

text \<open>
  C1, as amended: for every traceback chain with more nodes than \<open>max_nframes\<close>
  (\<open>max_nframes \<ge> 0\<close>), the descriptors retained by \<open>traceback_to_frames\<close> are exactly
  those of the first \<open>max_nframes\<close> nodes visited (the head of the chain), in
  last-kept-first order, and the nodes visited after them are the ones dropped.
\<close>

theorem traceback_truncation_keeps_head:
  assumes "0 \<le> max_nframes" and "max_nframes < int (length (tb_chain tb))"
  shows "fst (traceback_to_frames tb max_nframes)
           = rev (take (nat max_nframes) (tb_descriptors tb))
         \<and> length (fst (traceback_to_frames tb max_nframes)) = nat max_nframes
         \<and> rev (fst (traceback_to_frames tb max_nframes))
               @ drop (nat max_nframes) (tb_descriptors tb)
             = tb_descriptors tb
         \<and> drop (nat max_nframes) (tb_descriptors tb) \<noteq> []"
proof -
  have kept: "fst (traceback_to_frames tb max_nframes)
                = rev (take (nat max_nframes) (tb_descriptors tb))"
    by (simp add: traceback_to_frames_eq)
  from assms have short: "nat max_nframes < length (tb_descriptors tb)"
    by (simp add: length_tb_descriptors nat_less_iff)
  from kept short show ?thesis by simp
qed

theorem traceback_truncation_keeps_head_witness:
  "(0::int) \<le> 3 \<and> 3 < int (length (tb_chain chain_five))
   \<and> fst (traceback_to_frames chain_five 3)
       = [(''m.py'', 3, ''f''), (''m.py'', 2, ''f''), (''m.py'', 1, ''f'')]
   \<and> length (fst (traceback_to_frames chain_five 3)) = 3
   \<and> drop 3 (tb_descriptors chain_five) = [(''m.py'', 4, ''f''), (''m.py'', 5, ''f'')]"
proof -
  have h1: "(0::int) \<le> 3" by simp
  have h2: "3 < int (length (tb_chain chain_five))" by (simp add: chain_five_length)
  from traceback_truncation_keeps_head [OF h1 h2] h2 show ?thesis
    by (simp add: chain_five_descriptors)
qed

subsection \<open>C2: the chain \<open>X, Y, Z\<close> with \<open>max_nframes = 2\<close>\<close>

text \<open>
  On the chain visited in the order \<open>X, Y, Z\<close>, \<open>Z\<close> is visited when \<open>nframes = 2\<close>, so
  it is counted and not inserted: the result is not \<open>([descriptor Y, descriptor Z], 3)\<close>.
\<close>

theorem traceback_XYZ_cap_two_counterexample:
  "traceback_to_frames chain_XYZ 2
     \<noteq> ([frame_descriptor frame_Y, frame_descriptor frame_Z], 3)"
  by (simp add: chain_XYZ_walk example_descriptors)

text \<open>
  C2, as amended: for a traceback chain of three nodes visited in the order \<open>X, Y, Z\<close>
  and \<open>max_nframes = 2\<close>, \<open>traceback_to_frames\<close> returns the pair whose frames list is
  \<open>[descriptor Y, descriptor X]\<close> and whose total count is 3.
\<close>

theorem traceback_three_nodes_cap_two:
  "traceback_to_frames
     (Some (Traceback X (Some (Traceback Y (Some (Traceback Z None)))))) 2
   = ([frame_descriptor Y, frame_descriptor X], 3)"
  by (simp add: traceback_to_frames_def frame_descriptor_def Let_def)

subsection \<open>C3: the length of the frames list\<close>

text \<open>
  C3: for every chain and every \<open>max_nframes \<ge> 0\<close>, both walkers return a frames list
  whose length is the minimum of the returned total count and \<open>max_nframes\<close>; with
  \<open>max_nframes = 0\<close> the list is empty and the count is still the length of the chain.
\<close>

theorem frames_length_is_min:
  assumes "0 \<le> max_nframes"
  shows "int (length (fst (traceback_to_frames tb max_nframes)))
           = min (snd (traceback_to_frames tb max_nframes)) max_nframes
         \<and> int (length (fst (pyframe_to_frames fr max_nframes)))
           = min (snd (pyframe_to_frames fr max_nframes)) max_nframes
         \<and> traceback_to_frames tb 0 = ([], int (length (tb_chain tb)))
         \<and> pyframe_to_frames fr 0 = ([], int (length (frame_chain fr)))"
proof -
  have "int (length (fst (traceback_to_frames tb max_nframes)))
          = int (min (length (tb_chain tb)) (nat max_nframes))"
    by (simp add: traceback_to_frames_eq length_tb_descriptors)
  also have "\<dots> = min (int (length (tb_chain tb))) max_nframes"
    using assms by (rule int_min_nat)
  finally have tb_len: "int (length (fst (traceback_to_frames tb max_nframes)))
          = min (snd (traceback_to_frames tb max_nframes)) max_nframes"
    by (simp add: traceback_to_frames_eq)
  have "int (length (fst (pyframe_to_frames fr max_nframes)))
          = int (min (length (frame_chain fr)) (nat max_nframes))"
    by (simp add: pyframe_to_frames_eq length_frame_descriptors)
  also have "\<dots> = min (int (length (frame_chain fr))) max_nframes"
    using assms by (rule int_min_nat)
  finally have fr_len: "int (length (fst (pyframe_to_frames fr max_nframes)))
          = min (snd (pyframe_to_frames fr max_nframes)) max_nframes"
    by (simp add: pyframe_to_frames_eq)
  have zero: "traceback_to_frames tb 0 = ([], int (length (tb_chain tb)))"
    "pyframe_to_frames fr 0 = ([], int (length (frame_chain fr)))"
    by (simp_all add: traceback_to_frames_eq pyframe_to_frames_eq)
  from tb_len fr_len zero show ?thesis by simp
qed

theorem frames_length_is_min_witness:
  "(0::int) \<le> 2
   \<and> int (length (fst (traceback_to_frames chain_XYZ 2))) = min 3 2
   \<and> int (length (fst (pyframe_to_frames (Some frame_B) 2))) = min 1 2
   \<and> traceback_to_frames chain_XYZ 0 = ([], 3)
   \<and> pyframe_to_frames (Some frame_B) 0 = ([], 1)"
proof -
  have h: "(0::int) \<le> 2" by simp
  have "snd (traceback_to_frames chain_XYZ 2) = 3"
    by (simp add: chain_XYZ_walk)
  moreover have "snd (pyframe_to_frames (Some frame_B) 2) = 1"
    by (simp add: pyframe_to_frames_def frame_B_def)
  moreover have "length (tb_chain chain_XYZ) = 3"
    by (simp add: chain_XYZ_def)
  moreover have "length (frame_chain (Some frame_B)) = 1"
    by (simp add: frame_B_def)
  ultimately have counts: "snd (traceback_to_frames chain_XYZ 2) = 3"
    "snd (pyframe_to_frames (Some frame_B) 2) = 1"
    "length (tb_chain chain_XYZ) = 3" "length (frame_chain (Some frame_B)) = 1"
    by simp_all
  from frames_length_is_min [OF h, of chain_XYZ "Some frame_B"] counts show ?thesis
    by simp
qed

subsection \<open>C4: the total count\<close>

text \<open>
  C4: for every chain and every \<open>max_nframes\<close>, the total count returned by each walker
  is the number of nodes of the input chain, whatever the cap and however many
  descriptors were put into the frames list.
\<close>

theorem total_frame_count_is_chain_length:
  "snd (traceback_to_frames tb max_nframes) = int (length (tb_chain tb))
   \<and> snd (pyframe_to_frames fr max_nframes) = int (length (frame_chain fr))"
  by (simp add: traceback_to_frames_eq pyframe_to_frames_eq)

subsection \<open>C5: order and truncation of the frame walker\<close>

text \<open>
  C5: for every frame chain and \<open>max_nframes \<ge> 0\<close>, the frames list of
  \<open>pyframe_to_frames\<close> holds the descriptors of the first \<open>max_nframes\<close> nodes of the
  walk: entry \<open>i\<close> is the descriptor of the \<open>i\<close>-th caller outward of the head (entry 0
  the head itself), the callers beyond the cap are dropped and still counted, and the
  chain \<open>A \<rightarrow> B\<close> with \<open>max_nframes = 1\<close> gives \<open>([("a.py", 10, "foo")], 2)\<close>.
\<close>

theorem pyframe_keeps_innermost_in_order:
  assumes "0 \<le> max_nframes"
  shows "fst (pyframe_to_frames fr max_nframes)
           = take (nat max_nframes) (frame_descriptors fr)
         \<and> snd (pyframe_to_frames fr max_nframes) = int (length (frame_chain fr))
         \<and> (\<forall>i < length (fst (pyframe_to_frames fr max_nframes)).
               map_option frame_descriptor (nth_caller i fr)
                 = Some (fst (pyframe_to_frames fr max_nframes) ! i))
         \<and> pyframe_to_frames (Some frame_A) 1 = ([(''a.py'', 10, ''foo'')], 2)"
proof -
  let ?frames = "fst (pyframe_to_frames fr max_nframes)"
  have kept: "?frames = take (nat max_nframes) (frame_descriptors fr)"
    by (simp add: pyframe_to_frames_eq)
  have count: "snd (pyframe_to_frames fr max_nframes) = int (length (frame_chain fr))"
    by (simp add: pyframe_to_frames_eq)
  have order: "map_option frame_descriptor (nth_caller i fr) = Some (?frames ! i)"
    if "i < length ?frames" for i
  proof -
    from that kept have "i < nat max_nframes" and "i < length (frame_chain fr)"
      by (simp_all add: length_frame_descriptors)
    then show ?thesis
      using kept by (simp add: frame_descriptors_nth_caller)
  qed
  from kept count order frame_A_walk show ?thesis by blast
qed

theorem pyframe_keeps_innermost_in_order_witness:
  "(0::int) \<le> 2
   \<and> 1 < length (fst (pyframe_to_frames (Some frame_A) 2))
   \<and> nth_caller 1 (Some frame_A) = Some frame_B
   \<and> fst (pyframe_to_frames (Some frame_A) 2) ! 1 = frame_descriptor frame_B
   \<and> snd (pyframe_to_frames (Some frame_A) 2) = 2"
proof -
  have h: "(0::int) \<le> 2" by simp
  have len: "1 < length (fst (pyframe_to_frames (Some frame_A) 2))"
    by (simp add: frame_A_walk_two)
  have caller: "nth_caller 1 (Some frame_A) = Some frame_B"
    by (simp add: frame_A_def)
  have chain: "length (frame_chain (Some frame_A)) = 2"
    by (simp add: frame_A_def frame_B_def)
  from pyframe_keeps_innermost_in_order [OF h, of "Some frame_A"] len
  have "map_option frame_descriptor (nth_caller 1 (Some frame_A))
          = Some (fst (pyframe_to_frames (Some frame_A) 2) ! 1)"
    and "snd (pyframe_to_frames (Some frame_A) 2) = int (length (frame_chain (Some frame_A)))"
    by blast+
  with h len caller chain show ?thesis by simp
qed

subsection \<open>C6: the order of the traceback walker's output\<close>

text \<open>
  On the chain \<open>X, Y\<close> with \<open>max_nframes = 1\<close> the last node walked is \<open>Y\<close>, and the
  result holds the descriptor of \<open>X\<close> only: the last-walked node of the chain is not
  first in the result.
\<close>

theorem traceback_last_walked_first_counterexample:
  "traceback_to_frames chain_XY 1 = ([frame_descriptor frame_X], 2)
   \<and> last (tb_chain chain_XY) = Traceback frame_Y None
   \<and> hd (fst (traceback_to_frames chain_XY 1)) \<noteq> frame_descriptor frame_Y"
  by (simp add: chain_XY_walk example_descriptors) (simp add: chain_XY_def)

text \<open>
  C6, as amended: for every traceback chain and every \<open>max_nframes \<ge> 0\<close>, the frames
  list of \<open>traceback_to_frames\<close> is the reverse of the order in which its retained nodes
  (the first \<open>min(total, max_nframes)\<close> visited) were encountered, so the last-walked
  retained node is first in the result; the last-walked node of the chain is first in
  the result when the chain is not empty and has at most \<open>max_nframes\<close> nodes.
\<close>

theorem traceback_frames_reverse_walk_order:
  assumes "0 \<le> max_nframes"
  shows "fst (traceback_to_frames tb max_nframes)
           = rev (take (nat max_nframes) (tb_descriptors tb))
         \<and> (fst (traceback_to_frames tb max_nframes) \<noteq> [] \<longrightarrow>
              hd (fst (traceback_to_frames tb max_nframes))
                = tb_descriptors tb ! (min (length (tb_chain tb)) (nat max_nframes) - 1))
         \<and> (tb \<noteq> None \<and> int (length (tb_chain tb)) \<le> max_nframes \<longrightarrow>
              hd (fst (traceback_to_frames tb max_nframes))
                = frame_descriptor (tb_frame (last (tb_chain tb))))"
proof -
  let ?ds = "tb_descriptors tb"
  let ?kept = "take (nat max_nframes) ?ds"
  have frames: "fst (traceback_to_frames tb max_nframes) = rev ?kept"
    by (simp add: traceback_to_frames_eq)
  have first: "hd (rev ?kept) = ?ds ! (min (length (tb_chain tb)) (nat max_nframes) - 1)"
    if "rev ?kept \<noteq> []"
  proof -
    from that have ne: "?kept \<noteq> []" by simp
    then have "hd (rev ?kept) = ?kept ! (length ?kept - 1)"
      by (simp add: hd_rev last_conv_nth)
    also have "\<dots> = ?ds ! (length ?kept - 1)"
    proof (rule nth_take)
      from ne have "0 < nat max_nframes" by (cases "nat max_nframes") simp_all
      moreover have "length ?kept \<le> nat max_nframes" by simp
      ultimately show "length ?kept - 1 < nat max_nframes" by arith
    qed
    finally show ?thesis
      by (simp add: length_tb_descriptors)
  qed
  have whole: "hd (rev ?kept) = frame_descriptor (tb_frame (last (tb_chain tb)))"
    if "tb \<noteq> None" and "int (length (tb_chain tb)) \<le> max_nframes"
  proof -
    from that(1) have ne: "tb_chain tb \<noteq> []" by (cases tb) simp_all
    from that(2) have "length ?ds \<le> nat max_nframes"
      by (simp add: length_tb_descriptors)
    then have "?kept = ?ds" by simp
    then have "hd (rev ?kept) = last ?ds" by (simp add: hd_rev)
    also from ne have "\<dots> = frame_descriptor (tb_frame (last (tb_chain tb)))"
      by (simp add: tb_descriptors_def last_map)
    finally show ?thesis .
  qed
  from frames first whole show ?thesis by simp
qed

theorem traceback_frames_reverse_walk_order_witness:
  "(0::int) \<le> 2
   \<and> fst (traceback_to_frames chain_XYZ 2) = [frame_descriptor frame_Y, frame_descriptor frame_X]
   \<and> hd (fst (traceback_to_frames chain_XYZ 2)) = tb_descriptors chain_XYZ ! 1
   \<and> chain_XY \<noteq> None \<and> int (length (tb_chain chain_XY)) \<le> 2
   \<and> hd (fst (traceback_to_frames chain_XY 2)) = frame_descriptor frame_Y"
proof -
  have h: "(0::int) \<le> 2" by simp
  have ne: "fst (traceback_to_frames chain_XYZ 2) \<noteq> []"
    by (simp add: chain_XYZ_walk)
  have len3: "length (tb_chain chain_XYZ) = 3"
    by (simp add: chain_XYZ_def)
  have some: "chain_XY \<noteq> None" and len2: "int (length (tb_chain chain_XY)) \<le> 2"
    and last2: "tb_frame (last (tb_chain chain_XY)) = frame_Y"
    by (simp_all add: chain_XY_def)
  from traceback_frames_reverse_walk_order [OF h, of chain_XYZ] ne
  have "hd (fst (traceback_to_frames chain_XYZ 2))
          = tb_descriptors chain_XYZ ! (min (length (tb_chain chain_XYZ)) (nat 2) - 1)"
    by blast
  with len3 have "hd (fst (traceback_to_frames chain_XYZ 2)) = tb_descriptors chain_XYZ ! 1"
    by simp
  moreover from traceback_frames_reverse_walk_order [OF h, of chain_XY] some len2
  have "hd (fst (traceback_to_frames chain_XY 2))
          = frame_descriptor (tb_frame (last (tb_chain chain_XY)))"
    by blast
  with last2 have "hd (fst (traceback_to_frames chain_XY 2)) = frame_descriptor frame_Y"
    by simp
  ultimately show ?thesis
    using h some len2 by (simp add: chain_XYZ_walk example_descriptors)
qed

subsection \<open>C7: what a descriptor holds\<close>

text \<open>
  C7: every descriptor either walker emits comes from the node at the same place of the
  walk (the traceback walker's list read in reverse); its path and function name are the
  node's \<open>co_filename\<close> and \<open>co_name\<close>, its line number is 0 when the node's \<open>f_lineno\<close>
  is \<open>None\<close> and is the node's \<open>f_lineno\<close> otherwise. Nothing else is changed.
\<close>

theorem descriptor_line_number_normalization:
  "length (fst (pyframe_to_frames fr max_nframes)) \<le> length (frame_chain fr)
   \<and> (\<forall>i < length (fst (pyframe_to_frames fr max_nframes)).
        \<forall>path line name. fst (pyframe_to_frames fr max_nframes) ! i = (path, line, name) \<longrightarrow>
          path = co_filename (f_code (frame_chain fr ! i))
          \<and> name = co_name (f_code (frame_chain fr ! i))
          \<and> (f_lineno (frame_chain fr ! i) = None \<longrightarrow> line = 0)
          \<and> (\<forall>l. f_lineno (frame_chain fr ! i) = Some l \<longrightarrow> line = l))
   \<and> length (fst (traceback_to_frames tb max_nframes)) \<le> length (tb_chain tb)
   \<and> (\<forall>i < length (fst (traceback_to_frames tb max_nframes)).
        \<forall>path line name.
          rev (fst (traceback_to_frames tb max_nframes)) ! i = (path, line, name) \<longrightarrow>
          path = co_filename (f_code (tb_frame (tb_chain tb ! i)))
          \<and> name = co_name (f_code (tb_frame (tb_chain tb ! i)))
          \<and> (f_lineno (tb_frame (tb_chain tb ! i)) = None \<longrightarrow> line = 0)
          \<and> (\<forall>l. f_lineno (tb_frame (tb_chain tb ! i)) = Some l \<longrightarrow> line = l))"
proof -
  let ?pf = "fst (pyframe_to_frames fr max_nframes)"
  let ?tf = "fst (traceback_to_frames tb max_nframes)"
  have pf: "?pf = take (nat max_nframes) (frame_descriptors fr)"
    by (simp add: pyframe_to_frames_eq)
  have tf: "rev ?tf = take (nat max_nframes) (tb_descriptors tb)"
    by (simp add: traceback_to_frames_eq)
  have pf_len: "length ?pf \<le> length (frame_chain fr)"
    by (simp add: pf length_frame_descriptors)
  have tf_len: "length ?tf \<le> length (tb_chain tb)"
    by (simp add: traceback_to_frames_eq length_tb_descriptors)
  have pf_nth: "?pf ! i = frame_descriptor (frame_chain fr ! i)" if "i < length ?pf" for i
  proof -
    from that pf have "i < nat max_nframes" "i < length (frame_chain fr)"
      by (simp_all add: length_frame_descriptors)
    then show ?thesis by (simp add: pf frame_descriptors_def)
  qed
  have tf_nth: "rev ?tf ! i = frame_descriptor (tb_frame (tb_chain tb ! i))"
    if "i < length ?tf" for i
  proof -
    from that have "i < length (rev ?tf)" by simp
    with tf have "i < nat max_nframes" "i < length (tb_chain tb)"
      by (simp_all add: length_tb_descriptors)
    then show ?thesis by (simp add: tf tb_descriptors_def)
  qed
  have fields: "path = co_filename (f_code f) \<and> name = co_name (f_code f)
      \<and> (f_lineno f = None \<longrightarrow> line = 0) \<and> (\<forall>l. f_lineno f = Some l \<longrightarrow> line = l)"
    if "frame_descriptor f = (path, line, name)" for f path line name
    using that by (auto simp add: frame_descriptor_fields)
  show ?thesis
  proof (intro conjI allI impI)
    show "length ?pf \<le> length (frame_chain fr)" by (rule pf_len)
  next
    show "length ?tf \<le> length (tb_chain tb)" by (rule tf_len)
  qed (use pf_nth tf_nth fields in \<open>metis\<close>)+
qed

theorem descriptor_line_number_normalization_witness:
  "0 < length (fst (pyframe_to_frames (Some frame_native) 2))
   \<and> f_lineno (frame_chain (Some frame_native) ! 0) = None
   \<and> fst (snd (fst (pyframe_to_frames (Some frame_native) 2) ! 0)) = 0
   \<and> 1 < length (fst (pyframe_to_frames (Some frame_native) 2))
   \<and> f_lineno (frame_chain (Some frame_native) ! 1) = Some 2
   \<and> fst (snd (fst (pyframe_to_frames (Some frame_native) 2) ! 1)) = 2
   \<and> 0 < length (fst (traceback_to_frames chain_native 2))
   \<and> f_lineno (tb_frame (tb_chain chain_native ! 0)) = None
   \<and> fst (snd (rev (fst (traceback_to_frames chain_native 2)) ! 0)) = 0
   \<and> 1 < length (fst (traceback_to_frames chain_native 2))
   \<and> f_lineno (tb_frame (tb_chain chain_native ! 1)) = Some 1
   \<and> fst (snd (rev (fst (traceback_to_frames chain_native 2)) ! 1)) = 1"
proof -
  let ?pf = "fst (pyframe_to_frames (Some frame_native) 2)"
  let ?tf = "fst (traceback_to_frames chain_native 2)"
  note inst = descriptor_line_number_normalization [of "Some frame_native" 2 chain_native]
  have lens: "0 < length ?pf" "1 < length ?pf" "0 < length ?tf" "1 < length ?tf"
    by (simp_all add: frame_native_walk chain_native_walk)
  have lines: "f_lineno (frame_chain (Some frame_native) ! 0) = None"
    "f_lineno (frame_chain (Some frame_native) ! 1) = Some 2"
    "f_lineno (tb_frame (tb_chain chain_native ! 0)) = None"
    "f_lineno (tb_frame (tb_chain chain_native ! 1)) = Some 1"
    by (simp_all add: frame_native_def frame_B_def chain_native_def frame_X_def)
  have split: "d = (fst d, fst (snd d), snd (snd d))" for d :: descriptor
    by simp
  from inst lens(1) lines(1) split [of "?pf ! 0"]
  have p0: "fst (snd (?pf ! 0)) = 0" by blast
  from inst lens(2) lines(2) split [of "?pf ! 1"]
  have p1: "fst (snd (?pf ! 1)) = 2" by blast
  from inst lens(3) lines(3) split [of "rev ?tf ! 0"]
  have t0: "fst (snd (rev ?tf ! 0)) = 0" by blast
  from inst lens(4) lines(4) split [of "rev ?tf ! 1"]
  have t1: "fst (snd (rev ?tf ! 1)) = 1" by blast
  from lens lines p0 p1 t0 t1 show ?thesis by blast
qed

subsection \<open>C8: the empty chain\<close>

text \<open>
  C8: for a \<open>None\<close> chain head and every \<open>max_nframes\<close>, both walkers return the empty
  frames list and the total count 0.
\<close>

theorem empty_chain_gives_empty_result:
  "traceback_to_frames None max_nframes = ([], 0)
   \<and> pyframe_to_frames None max_nframes = ([], 0)"
  by (simp add: traceback_to_frames_def pyframe_to_frames_def)

subsection \<open>C9: the two walkers on the same nodes\<close>

text \<open>
  C9: when a traceback chain and a frame chain present the same nodes (the same code
  objects and line numbers) in the same walk order, then for every \<open>max_nframes \<ge> 0\<close>
  the two frames lists are reverses of each other, both made of the descriptors of the
  first \<open>min(total, max_nframes)\<close> visited nodes, and the total counts are equal.
\<close>

theorem walkers_agree_up_to_reversal:
  assumes "0 \<le> max_nframes"
    and "map (\<lambda>t. (f_code (tb_frame t), f_lineno (tb_frame t))) (tb_chain tb)
           = map (\<lambda>f. (f_code f, f_lineno f)) (frame_chain fr)"
  shows "fst (traceback_to_frames tb max_nframes) = rev (fst (pyframe_to_frames fr max_nframes))
         \<and> snd (traceback_to_frames tb max_nframes) = snd (pyframe_to_frames fr max_nframes)
         \<and> fst (pyframe_to_frames fr max_nframes)
             = take (nat (min (snd (pyframe_to_frames fr max_nframes)) max_nframes))
                 (frame_descriptors fr)
         \<and> rev (fst (traceback_to_frames tb max_nframes))
             = take (nat (min (snd (traceback_to_frames tb max_nframes)) max_nframes))
                 (tb_descriptors tb)"
proof -
  from assms(2) have ds: "tb_descriptors tb = frame_descriptors fr"
    by (rule same_metadata_same_descriptors)
  then have "length (tb_descriptors tb) = length (frame_descriptors fr)" by simp
  then have len: "length (tb_chain tb) = length (frame_chain fr)"
    by (simp add: length_tb_descriptors length_frame_descriptors)
  have cap: "take (nat (min (int (length xs)) max_nframes)) xs = take (nat max_nframes) xs"
    for xs :: "descriptor list"
    using assms(1) by (simp add: min_def)
  from cap [of "frame_descriptors fr"] cap [of "tb_descriptors tb"] ds len show ?thesis
    by (simp add: traceback_to_frames_eq pyframe_to_frames_eq
        length_tb_descriptors length_frame_descriptors)
qed

theorem walkers_agree_up_to_reversal_witness:
  "(0::int) \<le> 2
   \<and> map (\<lambda>t. (f_code (tb_frame t), f_lineno (tb_frame t))) (tb_chain chain_AB)
       = map (\<lambda>f. (f_code f, f_lineno f)) (frame_chain (Some frame_A))
   \<and> fst (pyframe_to_frames (Some frame_A) 2) = [(''a.py'', 10, ''foo''), (''a.py'', 2, ''bar'')]
   \<and> fst (traceback_to_frames chain_AB 2) = [(''a.py'', 2, ''bar''), (''a.py'', 10, ''foo'')]
   \<and> fst (traceback_to_frames chain_AB 2) \<noteq> fst (pyframe_to_frames (Some frame_A) 2)
   \<and> snd (traceback_to_frames chain_AB 2) = 2
   \<and> snd (pyframe_to_frames (Some frame_A) 2) = 2"
proof -
  have h1: "(0::int) \<le> 2" by simp
  have h2: "map (\<lambda>t. (f_code (tb_frame t), f_lineno (tb_frame t))) (tb_chain chain_AB)
              = map (\<lambda>f. (f_code f, f_lineno f)) (frame_chain (Some frame_A))"
    by (simp add: chain_AB_def frame_A_def frame_B_def)
  have py: "fst (pyframe_to_frames (Some frame_A) 2)
              = [(''a.py'', 10, ''foo''), (''a.py'', 2, ''bar'')]"
    and py_count: "snd (pyframe_to_frames (Some frame_A) 2) = 2"
    by (simp_all add: frame_A_walk_two)
  from walkers_agree_up_to_reversal [OF h1 h2]
  have reversed: "fst (traceback_to_frames chain_AB 2)
                    = rev (fst (pyframe_to_frames (Some frame_A) 2))"
    and same_count: "snd (traceback_to_frames chain_AB 2)
                       = snd (pyframe_to_frames (Some frame_A) 2)"
    by blast+
  from reversed py have tb: "fst (traceback_to_frames chain_AB 2)
                               = [(''a.py'', 2, ''bar''), (''a.py'', 10, ''foo'')]"
    by simp
  from same_count py_count have tb_count: "snd (traceback_to_frames chain_AB 2) = 2"
    by simp
  from h1 h2 py tb tb_count py_count show ?thesis by simp
qed

subsection \<open>C10: a negative cap\<close>

text \<open>
  C10: for every chain and every negative \<open>max_nframes\<close>, both walkers return the empty
  frames list together with the number of nodes of the chain: neither guard is ever
  true, and the counting does not depend on it.
\<close>

theorem negative_cap_keeps_nothing:
  assumes "max_nframes < 0"
  shows "traceback_to_frames tb max_nframes = ([], int (length (tb_chain tb)))
         \<and> pyframe_to_frames fr max_nframes = ([], int (length (frame_chain fr)))"
proof -
  from assms have "nat max_nframes = 0" by simp
  then show ?thesis
    by (simp add: traceback_to_frames_eq pyframe_to_frames_eq)
qed

theorem negative_cap_keeps_nothing_witness:
  "(-1::int) < 0
   \<and> traceback_to_frames chain_XYZ (-1) = ([], 3)
   \<and> pyframe_to_frames (Some frame_A) (-1) = ([], 2)"
proof -
  have h: "(-1::int) < 0" by simp
  have counts: "length (tb_chain chain_XYZ) = 3" "length (frame_chain (Some frame_A)) = 2"
    by (simp_all add: chain_XYZ_def frame_A_def frame_B_def)
  from negative_cap_keeps_nothing [OF h, of chain_XYZ "Some frame_A"] counts
  show ?thesis by simp
qed

end
